theory Spec2Isabelle
  imports
    Complex_Main
    "HOL-Library.Multiset"
    "HOL-Library.Char_ord"
    "HOL-Library.List_Lexorder"
    "HOL-Library.Sublist"
    "HOL-Library.AList"
begin

section \<open>Python values, exceptions and dictionaries\<close>

text \<open>
  The plugin module \<^verbatim>\<open>pytest_benchmark/plugin.py\<close> is embedded function by function.
  A Python exception is a value of \<open>py_exception\<close>; a function that may raise returns
  \<open>py_exception + 'a\<close> with \<open>Inl\<close> for the exception. \<^verbatim>\<open>pytest.skip(msg)\<close> raises
  the outcome exception \<open>Skipped\<close>. A dictionary is an association list in iteration
  order; \<open>AList.update\<close> keeps the position of a key that is present and appends a new
  one, as item assignment on a Python dictionary does.
\<close>

datatype py_exception =
    ValueError string
  | NotImplementedError string
  | KeyError string
  | TypeError string
  | NameError string
  | Skipped string
  | PerformanceRegression string
  | OtherException string
  | KeyboardInterrupt

datatype pyval =
    PyNone
  | PyBool bool
  | PyInt int
  | PyStr string
  | PyRef string
  | NameWrapper pyval
  | BenchmarkFixture "(string \<times> pyval) list"

type_synonym pydict = "(string \<times> pyval) list"

record mark_info =
  args :: "pyval list"
  kwargs :: pydict

record test_item =
  nodeid :: string
  funcargs :: "pydict option"
  markers :: "(string \<times> mark_info) list"

record benchmark_session =
  skip :: bool
  only :: bool
  disable :: bool
  options :: pydict

text \<open>\<^verbatim>\<open>item.get_marker(name)\<close>: the marker of that name, or \<^verbatim>\<open>None\<close>.\<close>

definition get_marker :: "test_item \<Rightarrow> string \<Rightarrow> mark_info option" where
  "get_marker item n = map_of (markers item) n"

section \<open>pytest_runtest_call\<close>

text \<open>
  \<^verbatim>\<open>fixure = hasattr(item, "funcargs") and item.funcargs.get("benchmark")\<close>: \<^verbatim>\<open>False\<close>
  when the item has no \<^verbatim>\<open>funcargs\<close>, otherwise the entry under \<^verbatim>\<open>"benchmark"\<close> or
  \<^verbatim>\<open>None\<close>.
\<close>

definition fixure_of :: "test_item \<Rightarrow> pyval" where
  "fixure_of item =
     (case funcargs item of
        None \<Rightarrow> PyBool False
      | Some fa \<Rightarrow> (case map_of fa ''benchmark'' of None \<Rightarrow> PyNone | Some v \<Rightarrow> v))"

fun isinstance_BenchmarkFixture :: "pyval \<Rightarrow> bool" where
  "isinstance_BenchmarkFixture (BenchmarkFixture kw) = True"
| "isinstance_BenchmarkFixture v = False"

datatype hook_outcome = Yielded

definition pytest_runtest_call :: "benchmark_session \<Rightarrow> test_item \<Rightarrow> py_exception + hook_outcome" where
  "pytest_runtest_call bs item =
     (let fixure = fixure_of item in
      if isinstance_BenchmarkFixture fixure then
        (if skip bs then Inl (Skipped ''Skipping benchmark (--benchmark-skip active).'')
         else Inr Yielded)
      else
        (if only bs then Inl (Skipped ''Skipping non-benchmark (--benchmark-only active).'')
         else Inr Yielded))"

fun is_skipped :: "py_exception + 'a \<Rightarrow> bool" where
  "is_skipped (Inl (Skipped m)) = True"
| "is_skipped r = False"

section \<open>pytest_runtest_setup\<close>

definition allowed_mark_kwargs :: "string list" where
  "allowed_mark_kwargs =
     [''max_time'', ''min_rounds'', ''min_time'', ''timer'', ''group'', ''disable_gc'', ''warmup'',
      ''warmup_iterations'', ''calibration_precision'']"

text \<open>
  The loop \<^verbatim>\<open>for name in marker.kwargs\<close>, raising at the first name outside the tuple.
  \<open>repr\<close> is the interpreter's \<^verbatim>\<open>%r\<close> formatting of a string.
\<close>

fun check_kwargs :: "(string \<Rightarrow> string) \<Rightarrow> string list \<Rightarrow> py_exception + unit" where
  "check_kwargs repr [] = Inr ()"
| "check_kwargs repr (n # ns) =
     (if n \<notin> set allowed_mark_kwargs
      then Inl (ValueError (''benchmark mark can't have '' @ repr n @ '' keyword argument.''))
      else check_kwargs repr ns)"

definition pytest_runtest_setup :: "(string \<Rightarrow> string) \<Rightarrow> test_item \<Rightarrow> py_exception + unit" where
  "pytest_runtest_setup repr item =
     (case get_marker item ''benchmark'' of
        None \<Rightarrow> Inr ()
      | Some marker \<Rightarrow>
          if args marker \<noteq> []
          then Inl (ValueError ''benchmark mark can't have positional arguments.'')
          else check_kwargs repr (map fst (kwargs marker)))"

fun is_ValueError :: "py_exception + 'a \<Rightarrow> bool" where
  "is_ValueError (Inl (ValueError m)) = True"
| "is_ValueError r = False"

section \<open>pytest_benchmark_generate_json\<close>

text \<open>
  The values a test may give as the group of a benchmark or as a parameter:
  \<^verbatim>\<open>None\<close>, a boolean, an integer or a string, which are hashable, or a list of such
  values, which is not.
\<close>

datatype pykey = KNone | KBool bool | KInt int | KStr string

datatype py_value = Hashable pykey | PyList "py_value list"

text \<open>
  A benchmark as the hooks see it: the fields read by subscription in
  \<^verbatim>\<open>pytest_benchmark_group_stats\<close> and the \<^verbatim>\<open>has_error\<close> attribute. The name and the
  full name are strings, the parameter id is a string or \<^verbatim>\<open>None\<close>; the group and the
  parameter values are whatever the test wrote. The method \<^verbatim>\<open>as_dict\<close>, the clock and the
  package version are defined outside the module and are parameters.
\<close>

record bench =
  group :: py_value
  name :: string
  fullname :: string
  param :: "string option"
  params :: "(string \<times> py_value) list"
  has_error :: bool

record ('m, 'c, 'j) output_json =
  machine_info :: 'm
  commit_info :: 'c
  benchmarks :: "'j list"
  datetime :: string
  version :: string

fun generate_loop :: "(bool \<Rightarrow> bench \<Rightarrow> 'j) \<Rightarrow> bool \<Rightarrow> bench list \<Rightarrow> 'j list \<Rightarrow> 'j list" where
  "generate_loop as_dict include_data [] benchmarks_json = benchmarks_json"
| "generate_loop as_dict include_data (b # bs) benchmarks_json =
     (if \<not> has_error b
      then generate_loop as_dict include_data bs (benchmarks_json @ [as_dict include_data b])
      else generate_loop as_dict include_data bs benchmarks_json)"

definition pytest_benchmark_generate_json ::
  "(bool \<Rightarrow> bench \<Rightarrow> 'j) \<Rightarrow> string \<Rightarrow> string \<Rightarrow> bench list \<Rightarrow> bool \<Rightarrow> 'm \<Rightarrow> 'c \<Rightarrow> ('m, 'c, 'j) output_json" where
  "pytest_benchmark_generate_json as_dict utcnow ver benches include_data mi ci =
     \<lparr> machine_info = mi,
       commit_info = ci,
       benchmarks = generate_loop as_dict include_data benches [],
       datetime = utcnow,
       version = ver \<rparr>"

section \<open>The benchmark fixture\<close>

text \<open>
  \<^verbatim>\<open>dict(bs.options, **options)\<close>: a copy of the first dictionary, updated with the items
  of the second in their order.
\<close>

definition dict_update :: "pydict \<Rightarrow> pydict \<Rightarrow> pydict" where
  "dict_update d kw = fold (\<lambda>(k, v). AList.update k v) kw d"

text \<open>
  The keyword arguments that the call of \<^verbatim>\<open>BenchmarkFixture\<close> writes out by name. The
  objects passed for the first three are references into the session and the node.
\<close>

definition explicit_kwargs :: "benchmark_session \<Rightarrow> test_item \<Rightarrow> pydict" where
  "explicit_kwargs bs node =
     [(''add_stats'', PyRef ''bs.benchmarks.append''),
      (''logger'', PyRef ''bs.logger''),
      (''warner'', PyRef (nodeid node @ ''.warn'')),
      (''disable'', PyBool (disable bs))]"

text \<open>
  A call \<^verbatim>\<open>f(k1=v1, ..., **d)\<close> raises \<^verbatim>\<open>TypeError\<close> when \<open>d\<close> repeats a keyword written
  out by name; the exception carries the first such keyword. Otherwise the callee gets
  all the keyword arguments. The constructor itself is outside the module: the fixture
  is the record of the keyword arguments it was called with.
\<close>

definition call_with_kwargs :: "pydict \<Rightarrow> pydict \<Rightarrow> py_exception + pydict" where
  "call_with_kwargs explicit d =
     (case find (\<lambda>k. k \<in> set (map fst explicit)) (map fst d) of
        Some k \<Rightarrow> Inl (TypeError k)
      | None \<Rightarrow> Inr (explicit @ d))"

text \<open>
  \<^verbatim>\<open>options = marker.kwargs if marker else {}\<close> binds the marker's own dictionary, so
  the assignment to \<^verbatim>\<open>options["timer"]\<close> changes the marker of the node. The function
  returns the node as the call leaves it, and the fixture. The finalizer that the function
  registers with the request runs after the test and is left out.
\<close>

definition wrap_timer :: "pydict \<Rightarrow> pydict" where
  "wrap_timer opts =
     (case map_of opts ''timer'' of
        Some t \<Rightarrow> AList.update ''timer'' (NameWrapper t) opts
      | None \<Rightarrow> opts)"

definition benchmark :: "benchmark_session \<Rightarrow> test_item \<Rightarrow> py_exception + (test_item \<times> pyval)" where
  "benchmark bs node =
     (if skip bs then Inl (Skipped ''Benchmarks are skipped (--benchmark-skip was used).'')
      else
        (case get_marker node ''benchmark'' of
           Some marker \<Rightarrow>
             (let opts = wrap_timer (kwargs marker);
                  node' = node\<lparr>markers := AList.update ''benchmark'' (marker\<lparr>kwargs := opts\<rparr>) (markers node)\<rparr>
              in case call_with_kwargs (explicit_kwargs bs node) (dict_update (options bs) opts) of
                   Inl e \<Rightarrow> Inl e
                 | Inr kw \<Rightarrow> Inr (node', BenchmarkFixture kw))
         | None \<Rightarrow>
             (case call_with_kwargs (explicit_kwargs bs node) (dict_update (options bs) []) of
                Inl e \<Rightarrow> Inl e
              | Inr kw \<Rightarrow> Inr (node, BenchmarkFixture kw))))"

text \<open>The keywords that the call of \<^verbatim>\<open>BenchmarkFixture\<close> writes out by name.\<close>

definition explicit_names :: "string set" where
  "explicit_names = {''add_stats'', ''logger'', ''warner'', ''disable''}"

text \<open>The keyword arguments of the marker of a node, the empty dictionary without a marker.\<close>

definition marker_kwargs :: "test_item \<Rightarrow> pydict" where
  "marker_kwargs node = (case get_marker node ''benchmark'' of Some m \<Rightarrow> kwargs m | None \<Rightarrow> [])"

section \<open>pytest_benchmark_compare_machine_info\<close>

text \<open>
  The logger and the storage belong to the session object, defined outside the module:
  \<^verbatim>\<open>logger.warn\<close> appends a warning to the session's log. \<^verbatim>\<open>format_dict\<close> is imported
  and is a parameter. The saved run \<^verbatim>\<open>compared_benchmark\<close> is a dictionary; subscription
  with a missing key raises \<^verbatim>\<open>KeyError\<close>.
\<close>

record warning =
  code :: string
  message :: string
  fslocation :: string

definition getitem :: "(string \<times> 'v) list \<Rightarrow> string \<Rightarrow> py_exception + 'v" where
  "getitem d k = (case map_of d k of None \<Rightarrow> Inl (KeyError k) | Some v \<Rightarrow> Inr v)"

definition pytest_benchmark_compare_machine_info ::
  "('m \<Rightarrow> string) \<Rightarrow> string \<Rightarrow> warning list \<Rightarrow> 'm \<Rightarrow> (string \<times> 'm) list \<Rightarrow> py_exception + warning list" where
  "pytest_benchmark_compare_machine_info format_dict location warnings mi compared_benchmark =
     (case getitem compared_benchmark ''machine_info'' of
        Inl e \<Rightarrow> Inl e
      | Inr saved \<Rightarrow>
          if saved \<noteq> mi
          then Inr (warnings @
                 [\<lparr> code = ''BENCHMARK-C6'',
                    message = ''Benchmark machine_info is different. Current: '' @ format_dict mi
                              @ '' VS saved: '' @ format_dict saved @ ''.'',
                    fslocation = location \<rparr>])
          else Inr warnings)"

section \<open>pytest_terminal_summary\<close>

text \<open>
  The names bound at the top level of the module, by its imports (on either branch of
  the \<^verbatim>\<open>try\<close> around \<^verbatim>\<open>import statistics\<close>), its class and its function definitions
  and the assignment to \<^verbatim>\<open>_hookwrapper\<close>, and the built-in names an \<^verbatim>\<open>except\<close> clause may mention. An
  \<^verbatim>\<open>except NAME:\<close> clause evaluates \<open>NAME\<close> when an exception reaches it: a name
  bound in neither list raises \<^verbatim>\<open>NameError\<close> in place of the exception being handled.
\<close>

definition module_names :: "string list" where
  "module_names =
     [''division'', ''print_function'', ''argparse'', ''operator'', ''platform'', ''sys'',
      ''traceback'', ''defaultdict'', ''datetime'', ''pytest'', ''__version__'',
      ''BenchmarkFixture'', ''BenchmarkSession'', ''default_timer'', ''NameWrapper'',
      ''format_dict'', ''get_commit_info'', ''get_current_time'', ''get_tag'', ''parse_columns'',
      ''parse_compare_fail'', ''parse_rounds'', ''parse_save'', ''parse_seconds'', ''parse_sort'',
      ''parse_timer'', ''parse_warmup'', ''statistics'', ''statistics_error'', ''Stats'',
      ''FixtureAlreadyUsed'', ''pytest_report_header'', ''add_display_options'',
      ''add_global_options'', ''pytest_addoption'', ''pytest_addhooks'',
      ''pytest_benchmark_compare_machine_info'', ''_hookwrapper'', ''pytest_runtest_call'',
      ''pytest_benchmark_group_stats'', ''pytest_sessionfinish'', ''pytest_terminal_summary'',
      ''pytest_benchmark_generate_machine_info'', ''pytest_benchmark_generate_commit_info'',
      ''pytest_benchmark_generate_json'', ''benchmark'', ''benchmark_weave'',
      ''pytest_runtest_setup'', ''pytest_configure'']"

definition builtin_exception_names :: "string list" where
  "builtin_exception_names =
     [''BaseException'', ''Exception'', ''ValueError'', ''NotImplementedError'', ''KeyError'',
      ''TypeError'', ''NameError'', ''ImportError'', ''SyntaxError'', ''KeyboardInterrupt'']"

definition lookup_name :: "string \<Rightarrow> py_exception + string" where
  "lookup_name n =
     (if n \<in> set module_names \<or> n \<in> set builtin_exception_names then Inr n
      else Inl (NameError (''name '' @ [CHR 0x27] @ n @ [CHR 0x27] @ '' is not defined'')))"

text \<open>
  \<open>display\<close> is the outcome of \<^verbatim>\<open>_benchmarksession.display(terminalreporter)\<close>, a method
  outside the module: it returns or raises. \<open>isinstance\<close> is the interpreter's test of
  an exception against a class, \<open>format_exc\<close> is \<^verbatim>\<open>traceback.format_exc()\<close> for the
  exception being handled. The result is the outcome of the hook and the error log.
\<close>

definition pytest_terminal_summary ::
  "(py_exception \<Rightarrow> string \<Rightarrow> bool) \<Rightarrow> (py_exception \<Rightarrow> string) \<Rightarrow>
   py_exception + unit \<Rightarrow> string list \<Rightarrow> (py_exception + unit) \<times> string list" where
  "pytest_terminal_summary isinstance format_exc display errors =
     (case display of
        Inr u \<Rightarrow> (Inr u, errors)
      | Inl e \<Rightarrow>
          (case lookup_name ''PerformanceRegression'' of
             Inl err \<Rightarrow> (Inl err, errors)
           | Inr cls \<Rightarrow>
               if isinstance e cls then (Inl e, errors)
               else
                 (case lookup_name ''Exception'' of
                    Inl err \<Rightarrow> (Inl err, errors)
                  | Inr cls' \<Rightarrow>
                      if isinstance e cls' then (Inl e, errors @ [[CHR 0x0A] @ format_exc e])
                      else (Inl e, errors))))"

section \<open>pytest_benchmark_group_stats\<close>


























section \<open>The measurement engine\<close>

text \<open>
  The Round Runner, the Stats Engine and the Baseline Comparator live in the modules
  \<^verbatim>\<open>fixture\<close>, \<^verbatim>\<open>stats\<close>, \<^verbatim>\<open>session\<close> and \<^verbatim>\<open>utils\<close>, which the plugin module only
  imports. The definitions of this section follow the specification of the engine.
  Durations are real numbers of seconds.
\<close>

subsection \<open>Round Runner\<close>

text \<open>
  Modelled from the spec: the states of a run while and after it is measured (the
  state machine of section 4.3; \<^verbatim>\<open>fixture.py\<close> is missing), the two budgets of the
  configuration that the stopping rule reads, and the \<open>BenchmarkRun\<close> of section 3 with
  its round durations in order.
\<close>

datatype run_phase = Measuring | Sealed | Errored

record run_config =
  min_rounds :: nat
  max_time :: real

record benchmark_run =
  phase :: run_phase
  rounds :: "real list"
  loops_per_round :: nat

text \<open>
  Modelled from the spec: the measuring step of the Round Runner (section 4.3), whose
  code in \<^verbatim>\<open>fixture.py\<close> is missing. \<open>duration i\<close> is the difference of the two timer
  readings around round \<open>i\<close>, \<open>raises i\<close> tells whether the candidate operation raises in
  round \<open>i\<close>, \<open>stop n\<close> whether an external stop has been requested once \<open>n\<close> rounds are
  done. A failing candidate moves the run to \<open>Errored\<close> at once. Otherwise the duration
  is appended and the stopping rule is evaluated: the run continues while
  \<open>executed_rounds < min_rounds\<close>, or \<open>cumulative_elapsed < max_time\<close> and no stop is
  requested; else it is sealed.
\<close>

definition round_step ::
  "run_config \<Rightarrow> (nat \<Rightarrow> real) \<Rightarrow> (nat \<Rightarrow> bool) \<Rightarrow> (nat \<Rightarrow> bool) \<Rightarrow> benchmark_run \<Rightarrow> benchmark_run" where
  "round_step cfg duration raises stop run =
     (let i = length (rounds run) in
      if raises i then run\<lparr>phase := Errored\<rparr>
      else
        (let rs = rounds run @ [duration i] in
         if length rs < min_rounds cfg \<or> (sum_list rs < max_time cfg \<and> \<not> stop (length rs))
         then run\<lparr>rounds := rs\<rparr>
         else run\<lparr>phase := Sealed, rounds := rs\<rparr>))"

text \<open>
  Modelled from the spec: the loop of the Round Runner, one round after the other on
  one thread. The loop need not end (rounds of duration zero never reach a positive
  \<open>max_time\<close>), so it runs on fuel: \<open>None\<close> is a run still measuring when the fuel is
  used up.
\<close>

fun run_rounds ::
  "nat \<Rightarrow> run_config \<Rightarrow> (nat \<Rightarrow> real) \<Rightarrow> (nat \<Rightarrow> bool) \<Rightarrow> (nat \<Rightarrow> bool) \<Rightarrow> benchmark_run
   \<Rightarrow> benchmark_run option" where
  "run_rounds 0 cfg duration raises stop run =
     (if phase run = Measuring then None else Some run)"
| "run_rounds (Suc fuel) cfg duration raises stop run =
     (if phase run = Measuring
      then run_rounds fuel cfg duration raises stop (round_step cfg duration raises stop run)
      else Some run)"

text \<open>
  Modelled from the spec: the run as calibration hands it to the Round Runner, measuring
  and with no round recorded.
\<close>

definition start_run :: "nat \<Rightarrow> benchmark_run" where
  "start_run loops = \<lparr> phase = Measuring, rounds = [], loops_per_round = loops \<rparr>"

text \<open>Modelled from the spec: \<open>cumulative_elapsed\<close>, the time spent in the first \<open>n\<close> rounds.\<close>

definition cumulative_elapsed :: "(nat \<Rightarrow> real) \<Rightarrow> nat \<Rightarrow> real" where
  "cumulative_elapsed duration n = sum_list (map duration [0..<n])"

subsection \<open>Stats Engine\<close>

text \<open>
  Modelled from the spec: the computations of the Stats Engine (section 4.4), whose
  code in \<^verbatim>\<open>stats.py\<close> is missing. The mean is the arithmetic average; the sample
  standard deviation has the denominator \<open>n - 1\<close> and is \<open>0\<close> for \<open>n = 1\<close>; the median is
  the middle element of the sorted sequence, or the average of the two central elements
  when \<open>n\<close> is even.
\<close>

definition mean :: "real list \<Rightarrow> real" where
  "mean xs = sum_list xs / real (length xs)"

text \<open>
  Modelled from the spec: the sample standard deviation of section 4.4, with the
  denominator \<open>n - 1\<close> and defined as \<open>0\<close> when \<open>n = 1\<close>.
\<close>

definition stddev :: "real list \<Rightarrow> real" where
  "stddev xs =
     (if length xs = 1 then 0
      else sqrt (sum_list (map (\<lambda>x. (x - mean xs)\<^sup>2) xs) / real (length xs - 1)))"

text \<open>
  Modelled from the spec: the median of section 4.4, the middle element of the sorted
  sequence or the average of the two central ones.
\<close>

definition median :: "real list \<Rightarrow> real" where
  "median xs =
     (let s = sort xs; n = length s in
      if odd n then s ! (n div 2) else (s ! (n div 2 - 1) + s ! (n div 2)) / 2)"

text \<open>
  Modelled from the spec: the fields of the \<open>StatsRecord\<close> of section 3 that are
  defined without the quartiles.
\<close>

record stats_record =
  st_min :: real
  st_max :: real
  st_mean :: real
  st_stddev :: real
  st_median :: real
  st_rounds :: nat

text \<open>
  Modelled from the spec: a \<open>StatsRecord\<close> is derived from a sealed run only, never
  from one flagged as errored, from the durations of its rounds divided by
  \<open>loops_per_round\<close>. The statistics of an empty sequence are not defined.
\<close>

definition compute_stats :: "benchmark_run \<Rightarrow> stats_record option" where
  "compute_stats run =
     (if phase run \<noteq> Sealed \<or> rounds run = [] then None
      else
        (let xs = map (\<lambda>d. d / real (loops_per_round run)) (rounds run) in
         Some \<lparr> st_min = Min (set xs), st_max = Max (set xs), st_mean = mean xs,
                st_stddev = stddev xs, st_median = median xs, st_rounds = length xs \<rparr>))"

subsection \<open>Baseline Comparator\<close>

text \<open>
  Modelled from the spec: the threshold expressions of the Baseline Comparator
  (section 4.5), whose parser \<^verbatim>\<open>parse_compare_fail\<close> in \<^verbatim>\<open>utils.py\<close> and whose checks
  are missing. An expression is \<^verbatim>\<open>metric:threshold\<close>; the metric is one of the labels
  of the statistics record; the threshold is a decimal number, a percentage when a
  percent sign follows it and a number of seconds otherwise.
\<close>

datatype threshold = Percentage real | Absolute real

text \<open>
  Modelled from the spec: the labels of the statistics (section 6), the closed set of
  metrics an expression may name.
\<close>

definition metric_names :: "string list" where
  "metric_names =
     [''min'', ''max'', ''mean'', ''stddev'', ''median'', ''iqr'', ''outliers'', ''ops'', ''rounds'',
      ''iterations'']"

text \<open>Modelled from the spec: the value of a decimal digit of a threshold.\<close>

definition digit_of :: "char \<Rightarrow> nat option" where
  "digit_of = map_of
     [(CHR ''0'', 0), (CHR ''1'', 1), (CHR ''2'', 2), (CHR ''3'', 3), (CHR ''4'', 4),
      (CHR ''5'', 5), (CHR ''6'', 6), (CHR ''7'', 7), (CHR ''8'', 8), (CHR ''9'', 9)]"

text \<open>Modelled from the spec: the value of a string of decimal digits, read from the left.\<close>

fun digits_value :: "nat \<Rightarrow> string \<Rightarrow> nat option" where
  "digits_value acc [] = Some acc"
| "digits_value acc (c # cs) =
     (case digit_of c of None \<Rightarrow> None | Some d \<Rightarrow> digits_value (10 * acc + d) cs)"

text \<open>
  Modelled from the spec: a bare number such as \<^verbatim>\<open>10\<close> or \<^verbatim>\<open>0.001\<close>, digits with an
  optional fraction.
\<close>

definition parse_decimal :: "string \<Rightarrow> real option" where
  "parse_decimal s =
     (let ip = takeWhile (\<lambda>c. c \<noteq> CHR ''.'') s; rest = dropWhile (\<lambda>c. c \<noteq> CHR ''.'') s in
      if ip = [] then None
      else
        (case digits_value 0 ip of
           None \<Rightarrow> None
         | Some i \<Rightarrow>
             (case rest of
                [] \<Rightarrow> Some (real i)
              | dot # fp \<Rightarrow>
                  if fp = [] then None
                  else
                    (case digits_value 0 fp of
                       None \<Rightarrow> None
                     | Some f \<Rightarrow> Some (real i + real f / 10 ^ length fp)))))"

text \<open>
  Modelled from the spec: a threshold, a percentage when it ends in a percent sign and a
  number of seconds otherwise.
\<close>

definition parse_threshold :: "string \<Rightarrow> threshold option" where
  "parse_threshold s =
     (if s \<noteq> [] \<and> last s = CHR ''%''
      then map_option Percentage (parse_decimal (butlast s))
      else map_option Absolute (parse_decimal s))"

text \<open>
  Modelled from the spec: an expression \<^verbatim>\<open>metric:threshold\<close>, rejected when the metric is
  not a label of the statistics or the threshold is not a number.
\<close>

definition parse_compare_fail :: "string \<Rightarrow> (string \<times> threshold) option" where
  "parse_compare_fail e =
     (let m = takeWhile (\<lambda>c. c \<noteq> CHR '':'') e; rest = dropWhile (\<lambda>c. c \<noteq> CHR '':'') e in
      if m \<notin> set metric_names then None
      else
        (case rest of
           [] \<Rightarrow> None
         | colon # t \<Rightarrow> map_option (Pair m) (parse_threshold t)))"

text \<open>
  Modelled from the spec: the verdict of one check. The relative form fails when
  \<open>current_metric > baseline_metric \<times> (1 + percentage/100)\<close>, the absolute form when
  \<open>current_metric > baseline_metric + threshold\<close>.
\<close>

fun regression_fails :: "threshold \<Rightarrow> real \<Rightarrow> real \<Rightarrow> bool" where
  "regression_fails (Percentage percentage) baseline_metric current_metric =
     (current_metric > baseline_metric * (1 + percentage / 100))"
| "regression_fails (Absolute thr) baseline_metric current_metric =
     (current_metric > baseline_metric + thr)"

text \<open>Modelled from the spec: the two verdicts of a check.\<close>

datatype verdict = Pass | Fail

text \<open>
  Modelled from the spec: the statistics records reach the comparator as mappings from
  metric label to value; the verdict of an expression compares the values of its metric
  in the current and in the baseline mapping. An expression that does not parse, or a
  metric absent from a mapping, gives no verdict.
\<close>

definition compare_verdict ::
  "string \<Rightarrow> (string \<times> real) list \<Rightarrow> (string \<times> real) list \<Rightarrow> verdict option" where
  "compare_verdict e baseline current =
     (case parse_compare_fail e of
        None \<Rightarrow> None
      | Some (m, thr) \<Rightarrow>
          (case (map_of baseline m, map_of current m) of
             (Some b, Some c) \<Rightarrow> Some (if regression_fails thr b c then Fail else Pass)
           | _ \<Rightarrow> None))"

text \<open>
  The rounds recorded so far never gave the Round Runner a reason to stop: after each of
  them the minimum number of rounds was not reached or the time budget was not used up.
\<close>

definition kept_going :: "run_config \<Rightarrow> real list \<Rightarrow> bool" where
  "kept_going cfg rs \<longleftrightarrow>
     (\<forall>m. 0 < m \<and> m \<le> length rs \<longrightarrow> m < min_rounds cfg \<or> sum_list (take m rs) < max_time cfg)"

section \<open>Example inputs\<close>

definition example_marker :: mark_info where
  "example_marker = \<lparr> args = [], kwargs = [(''max_time'', PyInt 2), (''rounds'', PyInt 3)] \<rparr>"

definition example_item :: test_item where
  "example_item = \<lparr> nodeid = ''test_a'', funcargs = None, markers = [(''benchmark'', example_marker)] \<rparr>"

definition example_fixture_item :: test_item where
  "example_fixture_item =
     \<lparr> nodeid = ''test_b'', funcargs = Some [(''benchmark'', BenchmarkFixture [])], markers = [] \<rparr>"

definition example_session :: benchmark_session where
  "example_session =
     \<lparr> skip = False, only = True, disable = False,
       options = [(''min_rounds'', PyInt 5), (''timer'', PyRef ''default_timer'')] \<rparr>"

definition example_saved_run :: "(string \<times> (string \<times> string) list) list" where
  "example_saved_run = [(''machine_info'', [(''node'', ''alpha'')]), (''commit_info'', [])]"

definition example_timer_item :: test_item where
  "example_timer_item =
     \<lparr> nodeid = ''test_c'', funcargs = None,
       markers = [(''benchmark'', \<lparr> args = [], kwargs = [(''timer'', PyRef ''time.time'')] \<rparr>)] \<rparr>"






definition example_config :: run_config where
  "example_config = \<lparr> min_rounds = 5, max_time = 2 \<rparr>"

definition example_run :: benchmark_run where
  "example_run = \<lparr> phase = Sealed, rounds = [2, 4, 6, 8, 10], loops_per_round = 2 \<rparr>"

section \<open>Theorems\<close>

lemma generate_loop_filter:
  "generate_loop as_dict d bs acc = acc @ map (as_dict d) (filter (\<lambda>b. \<not> has_error b) bs)"
  by (induction bs arbitrary: acc) simp_all

text \<open>
  C4: the report generated by \<^verbatim>\<open>pytest_benchmark_generate_json\<close> lists, in input order,
  the dictionaries of exactly those benchmarks whose \<^verbatim>\<open>has_error\<close> flag is false; a
  benchmark flagged as errored contributes nothing to the report.
\<close>

theorem generate_json_excludes_errored:
  "benchmarks (pytest_benchmark_generate_json as_dict utcnow ver benches include_data mi ci) =
     map (as_dict include_data) (filter (\<lambda>b. \<not> has_error b) benches)"
  by (simp add: pytest_benchmark_generate_json_def generate_loop_filter)

lemma check_kwargs_error:
  "is_ValueError (check_kwargs repr ns) \<longleftrightarrow> (\<exists>n \<in> set ns. n \<notin> set allowed_mark_kwargs)"
  by (induction ns) auto

lemma check_kwargs_ok:
  "check_kwargs repr ns = Inr () \<longleftrightarrow> (\<forall>n \<in> set ns. n \<in> set allowed_mark_kwargs)"
  by (induction ns) auto

text \<open>
  C7: for a test item carrying a benchmark marker, \<^verbatim>\<open>pytest_runtest_setup\<close> raises
  \<^verbatim>\<open>ValueError\<close> exactly when the marker has positional arguments or a keyword argument
  outside the closed set of nine names, and returns normally otherwise.
\<close>

theorem runtest_setup_rejects_invalid_marker:
  assumes "get_marker item ''benchmark'' = Some marker"
  shows "(is_ValueError (pytest_runtest_setup repr item) \<longleftrightarrow>
            args marker \<noteq> [] \<or>
            (\<exists>n \<in> set (map fst (kwargs marker)).
               n \<notin> {''max_time'', ''min_rounds'', ''min_time'', ''timer'', ''group'', ''disable_gc'',
                     ''warmup'', ''warmup_iterations'', ''calibration_precision''}))
       \<and> (\<not> is_ValueError (pytest_runtest_setup repr item) \<longrightarrow> pytest_runtest_setup repr item = Inr ())"
proof -
  have set_allowed: "set allowed_mark_kwargs =
      {''max_time'', ''min_rounds'', ''min_time'', ''timer'', ''group'', ''disable_gc'',
       ''warmup'', ''warmup_iterations'', ''calibration_precision''}"
    by (simp add: allowed_mark_kwargs_def)
  show ?thesis
  proof (cases "args marker = []")
    case True
    then have eq: "pytest_runtest_setup repr item = check_kwargs repr (map fst (kwargs marker))"
      using assms by (simp add: pytest_runtest_setup_def)
    have "\<not> is_ValueError (check_kwargs repr ns) \<longrightarrow> check_kwargs repr ns = Inr ()" for ns
      using check_kwargs_error [of repr ns] check_kwargs_ok [of repr ns] by blast
    then show ?thesis
      using True eq check_kwargs_error [of repr "map fst (kwargs marker)"] set_allowed by simp
  next
    case False
    then show ?thesis using assms by (simp add: pytest_runtest_setup_def)
  qed
qed

text \<open>
  C10: a test item whose \<^verbatim>\<open>funcargs\<close> hold a \<^verbatim>\<open>BenchmarkFixture\<close> under \<^verbatim>\<open>"benchmark"\<close> is
  skipped exactly when the session's skip flag is set; any other item is skipped exactly
  when the session's only flag is set; an item that is not skipped runs.
\<close>

theorem runtest_call_skip_rule:
  "(is_skipped (pytest_runtest_call bs item) \<longleftrightarrow>
      (if (\<exists>fa kw. funcargs item = Some fa \<and> map_of fa ''benchmark'' = Some (BenchmarkFixture kw))
       then skip bs else only bs))
   \<and> (\<not> is_skipped (pytest_runtest_call bs item) \<longrightarrow> pytest_runtest_call bs item = Inr Yielded)"
proof -
  have fx: "isinstance_BenchmarkFixture (fixure_of item) \<longleftrightarrow>
      (\<exists>fa kw. funcargs item = Some fa \<and> map_of fa ''benchmark'' = Some (BenchmarkFixture kw))"
    by (cases "fixure_of item")
       (auto simp: fixure_of_def split: option.splits)
  show ?thesis
    unfolding fx [symmetric] by (simp add: pytest_runtest_call_def Let_def)
qed

text \<open>The marker of \<open>example_item\<close> has the keyword \<^verbatim>\<open>rounds\<close>, outside the closed set.\<close>

theorem runtest_setup_rejects_invalid_marker_witness:
  "get_marker example_item ''benchmark'' = Some example_marker
   \<and> is_ValueError (pytest_runtest_setup (\<lambda>s. s) example_item)"
proof -
  have h: "get_marker example_item ''benchmark'' = Some example_marker"
    by (simp add: get_marker_def example_item_def)
  from runtest_setup_rejects_invalid_marker [OF h, of "\<lambda>s. s"] h
  show ?thesis by (simp add: example_marker_def)
qed


text \<open>
  With the only flag set and the skip flag clear, the item holding a fixture runs and the
  item without one is skipped.
\<close>

theorem runtest_call_skip_rule_witness:
  "\<not> is_skipped (pytest_runtest_call example_session example_fixture_item)
   \<and> pytest_runtest_call example_session example_fixture_item = Inr Yielded
   \<and> is_skipped (pytest_runtest_call example_session example_item)"
  using runtest_call_skip_rule [of example_session example_fixture_item]
        runtest_call_skip_rule [of example_session example_item]
  by (simp add: example_session_def example_fixture_item_def example_item_def)


text \<open>
  C5: when \<^verbatim>\<open>display\<close> raises \<^verbatim>\<open>PerformanceRegression\<close>, \<^verbatim>\<open>pytest_terminal_summary\<close>
  should raise it again unchanged, without logging. The module never binds the name
  \<^verbatim>\<open>PerformanceRegression\<close>, so the first \<^verbatim>\<open>except\<close> clause raises \<^verbatim>\<open>NameError\<close>
  in its place: the regression does not reach the caller, and neither does any other
  exception that \<^verbatim>\<open>display\<close> raises, none of which is logged.
\<close>

theorem terminal_summary_raises_NameError:
  "pytest_terminal_summary isinstance format_exc (Inl (PerformanceRegression msg)) errors =
     (Inl (NameError ''name 'PerformanceRegression' is not defined''), errors)
   \<and> pytest_terminal_summary isinstance format_exc (Inl e) errors =
     (Inl (NameError ''name 'PerformanceRegression' is not defined''), errors)"
  by (simp add: pytest_terminal_summary_def lookup_name_def module_names_def builtin_exception_names_def)


text \<open>
  C6: when the saved run has a \<^verbatim>\<open>machine_info\<close> entry,
  \<^verbatim>\<open>pytest_benchmark_compare_machine_info\<close> returns normally, and it appends one warning
  with the code \<^verbatim>\<open>BENCHMARK-C6\<close> to the log exactly when the saved machine info
  differs from the current one; it leaves the log as it is otherwise.
\<close>

theorem compare_machine_info_warns_iff_different:
  assumes "map_of compared_benchmark ''machine_info'' = Some saved"
  shows "\<exists>new. pytest_benchmark_compare_machine_info format_dict location warnings mi compared_benchmark
                 = Inr (warnings @ new)
             \<and> (new \<noteq> [] \<longleftrightarrow> saved \<noteq> mi) \<and> length new \<le> 1
             \<and> (\<forall>w \<in> set new. code w = ''BENCHMARK-C6'' \<and> fslocation w = location)"
  using assms
  by (cases "saved = mi") (simp_all add: pytest_benchmark_compare_machine_info_def getitem_def)


theorem compare_machine_info_warns_iff_different_witness:
  "map_of example_saved_run ''machine_info'' = Some [(''node'', ''alpha'')]
   \<and> pytest_benchmark_compare_machine_info (\<lambda>m. concat (map snd m)) ''./.benchmarks'' []
        [(''node'', ''beta'')] example_saved_run
      = Inr [\<lparr> code = ''BENCHMARK-C6'',
               message = ''Benchmark machine_info is different. Current: beta VS saved: alpha.'',
               fslocation = ''./.benchmarks'' \<rparr>]
   \<and> pytest_benchmark_compare_machine_info (\<lambda>m. concat (map snd m)) ''./.benchmarks'' []
        [(''node'', ''alpha'')] example_saved_run = Inr []"
proof -
  have h: "map_of example_saved_run ''machine_info'' = Some [(''node'', ''alpha'')]"
    by (simp add: example_saved_run_def)
  from compare_machine_info_warns_iff_different
         [OF h, of "\<lambda>m. concat (map snd m)" "''./.benchmarks''" "[]" "[(''node'', ''alpha'')]"]
  have same: "pytest_benchmark_compare_machine_info (\<lambda>m. concat (map snd m)) ''./.benchmarks'' []
        [(''node'', ''alpha'')] example_saved_run = Inr []"
    by auto
  have diff: "pytest_benchmark_compare_machine_info (\<lambda>m. concat (map snd m)) ''./.benchmarks'' []
        [(''node'', ''beta'')] example_saved_run
      = Inr [\<lparr> code = ''BENCHMARK-C6'',
               message = ''Benchmark machine_info is different. Current: beta VS saved: alpha.'',
               fslocation = ''./.benchmarks'' \<rparr>]"
    by (simp add: pytest_benchmark_compare_machine_info_def getitem_def example_saved_run_def)
  from h same diff show ?thesis by simp
qed

lemma map_of_dict_update:
  "distinct (map fst kw) \<Longrightarrow>
   map_of (dict_update d kw) k = (case map_of kw k of Some v \<Rightarrow> Some v | None \<Rightarrow> map_of d k)"
proof (induction kw arbitrary: d)
  case Nil
  then show ?case by (simp add: dict_update_def)
next
  case (Cons p kw)
  obtain k0 v0 where p: "p = (k0, v0)" by (cases p)
  from Cons.prems p have notin: "k0 \<notin> fst ` set kw" and dist: "distinct (map fst kw)" by auto
  have step: "dict_update d (p # kw) = dict_update (AList.update k0 v0 d) kw"
    by (simp add: dict_update_def p)
  from notin have none: "map_of kw k0 = None" by (simp add: map_of_eq_None_iff)
  show ?case
    unfolding step Cons.IH [OF dist]
    using none by (simp add: p update_conv' split: option.splits)
qed

lemma keys_dict_update:
  "fst ` set (dict_update d kw) = fst ` set d \<union> fst ` set kw"
proof (induction kw arbitrary: d)
  case Nil
  then show ?case by (simp add: dict_update_def)
next
  case (Cons p kw)
  obtain k0 v0 where p: "p = (k0, v0)" by (cases p)
  have step: "dict_update d (p # kw) = dict_update (AList.update k0 v0 d) kw"
    by (simp add: dict_update_def p)
  show ?case unfolding step Cons.IH by (auto simp: p dom_update)
qed

lemma map_of_wrap_timer:
  "map_of (wrap_timer opts) k =
     (if k = ''timer'' then map_option NameWrapper (map_of opts k) else map_of opts k)"
  by (simp add: wrap_timer_def update_conv' split: option.splits)

lemma keys_wrap_timer: "fst ` set (wrap_timer opts) = fst ` set opts"
proof (cases "map_of opts ''timer''")
  case None
  then show ?thesis by (simp add: wrap_timer_def)
next
  case (Some t)
  then have "''timer'' \<in> fst ` set opts" by (metis map_of_eq_None_iff option.distinct(1))
  with Some show ?thesis by (auto simp: wrap_timer_def dom_update)
qed

lemma distinct_wrap_timer: "distinct (map fst opts) \<Longrightarrow> distinct (map fst (wrap_timer opts))"
  by (simp add: wrap_timer_def distinct_update split: option.splits)

lemma call_with_kwargs_ok:
  "fst ` set d \<inter> fst ` set explicit = {} \<Longrightarrow> call_with_kwargs explicit d = Inr (explicit @ d)"
proof -
  assume disj: "fst ` set d \<inter> fst ` set explicit = {}"
  then have "find (\<lambda>k. k \<in> set (map fst explicit)) (map fst d) = None"
    by (auto simp: find_None_iff)
  then show ?thesis by (simp add: call_with_kwargs_def)
qed

lemma map_of_append_notin:
  "k \<notin> fst ` set xs \<Longrightarrow> map_of (xs @ ys) k = map_of ys k"
proof -
  assume "k \<notin> fst ` set xs"
  then have "map_of xs k = None" by (simp add: map_of_eq_None_iff)
  then show ?thesis by (simp add: map_add_def)
qed

lemma keys_explicit_kwargs: "fst ` set (explicit_kwargs bs node) = explicit_names"
  by (auto simp: explicit_kwargs_def explicit_names_def)

lemma get_marker_update:
  "get_marker (node\<lparr>markers := AList.update n m (markers node)\<rparr>) n = Some m"
  by (simp add: get_marker_def update_conv')


text \<open>
  C8: when the fixture is not skipped, the marker's keywords are distinct and no option
  repeats a keyword that the call writes out by name, \<^verbatim>\<open>benchmark\<close> returns a fixture
  whose keyword arguments hold, for every key of the marker, the marker's value, and for
  every session option absent from the marker, the session's value. The marker's values
  are those of its dictionary when the call is made: its \<^verbatim>\<open>timer\<close> entry has been
  wrapped in \<^verbatim>\<open>NameWrapper\<close> in place, every other entry is as the test wrote it.
\<close>

theorem benchmark_config_merge:
  assumes noskip: "\<not> skip bs"
      and dist: "distinct (map fst (marker_kwargs node))"
      and noclash: "(fst ` set (options bs) \<union> fst ` set (marker_kwargs node)) \<inter> explicit_names = {}"
  shows "\<exists>node' kw. benchmark bs node = Inr (node', BenchmarkFixture kw)
       \<and> (\<forall>k v. map_of (marker_kwargs node') k = Some v \<longrightarrow> map_of kw k = Some v)
       \<and> (\<forall>k v. map_of (marker_kwargs node) k = None \<and> map_of (options bs) k = Some v
                \<longrightarrow> map_of kw k = Some v)
       \<and> (\<forall>k. map_of (marker_kwargs node') k =
                (if k = ''timer'' then map_option NameWrapper (map_of (marker_kwargs node) k)
                 else map_of (marker_kwargs node) k))"
proof -
  define opts where "opts = wrap_timer (marker_kwargs node)"
  define merged where "merged = dict_update (options bs) opts"
  define node' where "node' =
    (case get_marker node ''benchmark'' of
       Some m \<Rightarrow> node\<lparr>markers := AList.update ''benchmark'' (m\<lparr>kwargs := opts\<rparr>) (markers node)\<rparr>
     | None \<Rightarrow> node)"
  have d_opts: "distinct (map fst opts)"
    using dist by (simp add: opts_def distinct_wrap_timer)
  have keys_merged: "fst ` set merged = fst ` set (options bs) \<union> fst ` set (marker_kwargs node)"
    by (simp add: merged_def opts_def keys_dict_update keys_wrap_timer)
  have call: "call_with_kwargs (explicit_kwargs bs node) merged = Inr (explicit_kwargs bs node @ merged)"
    using noclash keys_merged by (intro call_with_kwargs_ok) (simp add: keys_explicit_kwargs)
  have wrap_nil: "wrap_timer [] = []" by (simp add: wrap_timer_def)
  have res: "benchmark bs node = Inr (node', BenchmarkFixture (explicit_kwargs bs node @ merged))"
  proof (cases "get_marker node ''benchmark''")
    case None
    then have "opts = []" by (simp add: opts_def marker_kwargs_def wrap_nil)
    with None noskip call show ?thesis
      by (simp add: benchmark_def node'_def merged_def)
  next
    case (Some m)
    then have "opts = wrap_timer (kwargs m)" by (simp add: opts_def marker_kwargs_def)
    with Some noskip call show ?thesis
      by (simp add: benchmark_def node'_def merged_def Let_def)
  qed
  have mk': "marker_kwargs node' = opts"
  proof (cases "get_marker node ''benchmark''")
    case None
    then show ?thesis by (simp add: node'_def marker_kwargs_def opts_def wrap_nil)
  next
    case (Some m)
    then show ?thesis by (simp add: node'_def marker_kwargs_def get_marker_update)
  qed
  have look: "map_of (explicit_kwargs bs node @ merged) k = map_of merged k"
    if "k \<in> fst ` set merged" for k
  proof -
    from that noclash keys_merged have "k \<notin> fst ` set (explicit_kwargs bs node)"
      by (auto simp: keys_explicit_kwargs)
    then show ?thesis by (rule map_of_append_notin)
  qed
  have merged_of: "map_of merged k = (case map_of opts k of Some v \<Rightarrow> Some v | None \<Rightarrow> map_of (options bs) k)" for k
    unfolding merged_def by (rule map_of_dict_update [OF d_opts])
  have in_keys: "k \<in> fst ` set merged" if "map_of merged k = Some v" for k v
    using that by (metis map_of_eq_None_iff option.distinct(1))
  have c1: "map_of (explicit_kwargs bs node @ merged) k = Some v" if "map_of opts k = Some v" for k v
  proof -
    from that have m: "map_of merged k = Some v" by (simp add: merged_of)
    with look [OF in_keys [OF m]] show ?thesis by simp
  qed
  have c2: "map_of (explicit_kwargs bs node @ merged) k = Some v"
    if "map_of (marker_kwargs node) k = None" "map_of (options bs) k = Some v" for k v
  proof -
    from that(1) have "map_of opts k = None" by (cases "k = ''timer''") (simp_all add: opts_def map_of_wrap_timer)
    with that(2) have m: "map_of merged k = Some v" by (simp add: merged_of)
    with look [OF in_keys [OF m]] show ?thesis by simp
  qed
  have c3: "map_of opts k =
                (if k = ''timer'' then map_option NameWrapper (map_of (marker_kwargs node) k)
                 else map_of (marker_kwargs node) k)" for k
    unfolding opts_def by (rule map_of_wrap_timer)
  show ?thesis
    using res c1 c2 c3 unfolding mk' [symmetric] by blast
qed


theorem benchmark_config_merge_witness:
  "\<not> skip example_session
   \<and> distinct (map fst (marker_kwargs example_timer_item))
   \<and> (fst ` set (options example_session) \<union> fst ` set (marker_kwargs example_timer_item))
        \<inter> explicit_names = {}
   \<and> (\<exists>node' kw. benchmark example_session example_timer_item = Inr (node', BenchmarkFixture kw)
        \<and> map_of kw ''timer'' = Some (NameWrapper (PyRef ''time.time''))
        \<and> map_of kw ''min_rounds'' = Some (PyInt 5))"
proof -
  have mk: "marker_kwargs example_timer_item = [(''timer'', PyRef ''time.time'')]"
    by (simp add: marker_kwargs_def get_marker_def example_timer_item_def)
  have h1: "\<not> skip example_session" by (simp add: example_session_def)
  have h2: "distinct (map fst (marker_kwargs example_timer_item))" by (simp add: mk)
  have h3: "(fst ` set (options example_session) \<union> fst ` set (marker_kwargs example_timer_item))
              \<inter> explicit_names = {}"
    by (simp add: mk example_session_def explicit_names_def)
  from benchmark_config_merge [OF h1 h2 h3] obtain node' kw where
    res: "benchmark example_session example_timer_item = Inr (node', BenchmarkFixture kw)"
    and win: "\<And>k v. map_of (marker_kwargs node') k = Some v \<Longrightarrow> map_of kw k = Some v"
    and keep: "\<And>k v. map_of (marker_kwargs example_timer_item) k = None
                  \<Longrightarrow> map_of (options example_session) k = Some v \<Longrightarrow> map_of kw k = Some v"
    and wrapped: "\<And>k. map_of (marker_kwargs node') k =
                (if k = ''timer'' then map_option NameWrapper (map_of (marker_kwargs example_timer_item) k)
                 else map_of (marker_kwargs example_timer_item) k)"
    by blast
  have "map_of (marker_kwargs node') ''timer'' = Some (NameWrapper (PyRef ''time.time''))"
    by (simp add: wrapped mk)
  then have t: "map_of kw ''timer'' = Some (NameWrapper (PyRef ''time.time''))" by (rule win)
  have r: "map_of kw ''min_rounds'' = Some (PyInt 5)"
    by (rule keep) (simp_all add: mk example_session_def)
  from h1 h2 h3 res t r show ?thesis by blast
qed

lemma run_rounds_done:
  "phase run \<noteq> Measuring \<Longrightarrow> run_rounds fuel cfg duration raises stop run = Some run"
  by (cases fuel) simp_all

lemma round_step_cases:
  assumes "phase run = Measuring"
  shows "(phase (round_step cfg duration raises stop run) = Errored)
       \<or> (phase (round_step cfg duration raises stop run) = Measuring
            \<and> rounds (round_step cfg duration raises stop run) = rounds run @ [duration (length (rounds run))]
            \<and> (Suc (length (rounds run)) < min_rounds cfg
                 \<or> sum_list (rounds run @ [duration (length (rounds run))]) < max_time cfg))
       \<or> (phase (round_step cfg duration raises stop run) = Sealed
            \<and> rounds (round_step cfg duration raises stop run) = rounds run @ [duration (length (rounds run))]
            \<and> min_rounds cfg \<le> Suc (length (rounds run)))"
  using assms by (auto simp: round_step_def Let_def)

lemma kept_going_snoc:
  assumes "kept_going cfg rs"
      and "Suc (length rs) < min_rounds cfg \<or> sum_list (rs @ [d]) < max_time cfg"
  shows "kept_going cfg (rs @ [d])"
  unfolding kept_going_def
proof (intro allI impI)
  fix m assume m: "0 < m \<and> m \<le> length (rs @ [d])"
  show "m < min_rounds cfg \<or> sum_list (take m (rs @ [d])) < max_time cfg"
  proof (cases "m \<le> length rs")
    case True
    with m assms(1) show ?thesis by (simp add: kept_going_def)
  next
    case False
    with m have "m = Suc (length rs)" by simp
    with assms(2) show ?thesis by simp
  qed
qed

lemma run_rounds_sealed:
  assumes "run_rounds fuel cfg duration raises stop run = Some run'"
      and "phase run = Measuring" and "phase run' = Sealed"
      and "kept_going cfg (rounds run)"
  shows "min_rounds cfg \<le> length (rounds run') \<and> 0 < length (rounds run')
       \<and> kept_going cfg (butlast (rounds run'))"
  using assms
proof (induction fuel arbitrary: run)
  case 0
  then show ?case by simp
next
  case (Suc fuel)
  let ?s = "round_step cfg duration raises stop run"
  from Suc.prems(1,2) have rec: "run_rounds fuel cfg duration raises stop ?s = Some run'" by simp
  from round_step_cases [OF Suc.prems(2), of cfg duration raises stop]
  consider (err) "phase ?s = Errored"
    | (go) "phase ?s = Measuring" "rounds ?s = rounds run @ [duration (length (rounds run))]"
        "Suc (length (rounds run)) < min_rounds cfg
           \<or> sum_list (rounds run @ [duration (length (rounds run))]) < max_time cfg"
    | (seal) "phase ?s = Sealed" "rounds ?s = rounds run @ [duration (length (rounds run))]"
        "min_rounds cfg \<le> Suc (length (rounds run))"
    by blast
  then show ?case
  proof cases
    case err
    then have "run_rounds fuel cfg duration raises stop ?s = Some ?s"
      by (intro run_rounds_done) simp
    with rec err Suc.prems(3) show ?thesis by auto
  next
    case go
    have "kept_going cfg (rounds ?s)"
      unfolding go(2) using Suc.prems(4) go(3) by (rule kept_going_snoc)
    from Suc.IH [OF rec go(1) Suc.prems(3) this] show ?thesis .
  next
    case seal
    then have "run_rounds fuel cfg duration raises stop ?s = Some ?s"
      by (intro run_rounds_done) simp
    with rec have "run' = ?s" by simp
    with seal Suc.prems(4) show ?thesis by simp
  qed
qed

lemma run_rounds_exact:
  assumes n: "k < n" "min_rounds cfg \<le> n" "max_time cfg \<le> cumulative_elapsed duration n"
      and first: "\<forall>m. 0 < m \<and> m < n \<longrightarrow>
                    m < min_rounds cfg \<or> (cumulative_elapsed duration m < max_time cfg \<and> \<not> stop m)"
      and ok: "\<forall>i < n. \<not> raises i"
      and fuel: "n - k \<le> fuel"
      and st: "phase run = Measuring" "rounds run = map duration [0..<k]"
  shows "run_rounds fuel cfg duration raises stop run
           = Some (run\<lparr>phase := Sealed, rounds := map duration [0..<n]\<rparr>)"
  using n(1) fuel st
proof (induction fuel arbitrary: k run)
  case 0
  then show ?case by simp
next
  case (Suc fuel)
  let ?s = "round_step cfg duration raises stop run"
  have len: "length (rounds run) = k" by (simp add: Suc.prems(4))
  from ok Suc.prems(1) have nr: "\<not> raises k" by simp
  have rs: "rounds run @ [duration k] = map duration [0..<Suc k]" by (simp add: Suc.prems(4))
  have cum: "sum_list (map duration [0..<Suc k]) = cumulative_elapsed duration (Suc k)"
    by (simp add: cumulative_elapsed_def)
  show ?case
  proof (cases "Suc k = n")
    case True
    with n(2,3) have "\<not> (Suc k < min_rounds cfg)" "\<not> (cumulative_elapsed duration (Suc k) < max_time cfg)"
      by simp_all
    then have "?s = run\<lparr>phase := Sealed, rounds := map duration [0..<n]\<rparr>"
      using nr len rs cum True
      by (simp add: round_step_def Let_def del: upt_Suc)
    moreover have "run_rounds fuel cfg duration raises stop (run\<lparr>phase := Sealed, rounds := map duration [0..<n]\<rparr>)
        = Some (run\<lparr>phase := Sealed, rounds := map duration [0..<n]\<rparr>)"
      by (rule run_rounds_done) simp
    ultimately show ?thesis using Suc.prems(3) by simp
  next
    case False
    with Suc.prems(1) have lt: "Suc k < n" by simp
    with first have c: "Suc k < min_rounds cfg
        \<or> (cumulative_elapsed duration (Suc k) < max_time cfg \<and> \<not> stop (Suc k))" by auto
    have s: "?s = run\<lparr>rounds := map duration [0..<Suc k]\<rparr>"
      using nr len rs cum c
      by (auto simp: round_step_def Let_def simp del: upt_Suc)
    have f: "n - Suc k \<le> fuel" using Suc.prems(2) by simp
    have "run_rounds fuel cfg duration raises stop ?s
            = Some (?s\<lparr>phase := Sealed, rounds := map duration [0..<n]\<rparr>)"
      by (rule Suc.IH [OF lt f]) (simp_all add: s Suc.prems(3))
    then show ?thesis using Suc.prems(3) by (simp add: s)
  qed
qed

text \<open>
  C1: a run that the Round Runner seals has at least \<open>min_rounds\<close> rounds, and at no
  earlier round were both \<open>executed_rounds \<ge> min_rounds\<close> and
  \<open>cumulative_elapsed \<ge> max_time\<close> true. Conversely, let \<open>n\<close> be a round after which
  both hold, while after every earlier round the rule says to continue and the candidate
  raises in none of the rounds: with fuel for \<open>n\<close> rounds the run is sealed with exactly
  the first \<open>n\<close> rounds, also when the elapsed time exceeds \<open>max_time\<close> before
  \<open>min_rounds\<close> is reached.
\<close>

theorem round_runner_min_rounds_precedence:
  "(run_rounds fuel cfg duration raises stop (start_run loops) = Some run \<and> phase run = Sealed
      \<longrightarrow> min_rounds cfg \<le> length (rounds run)
          \<and> (\<forall>m. 0 < m \<and> m < length (rounds run)
                \<longrightarrow> \<not> (min_rounds cfg \<le> m \<and> max_time cfg \<le> sum_list (take m (rounds run)))))
   \<and> (0 < n \<and> min_rounds cfg \<le> n \<and> max_time cfg \<le> cumulative_elapsed duration n
        \<and> (\<forall>m. 0 < m \<and> m < n \<longrightarrow>
              m < min_rounds cfg \<or> (cumulative_elapsed duration m < max_time cfg \<and> \<not> stop m))
        \<and> (\<forall>i < n. \<not> raises i) \<and> n \<le> fuel
      \<longrightarrow> run_rounds fuel cfg duration raises stop (start_run loops)
            = Some \<lparr> phase = Sealed, rounds = map duration [0..<n], loops_per_round = loops \<rparr>)"
proof (intro conjI impI)
  assume a: "run_rounds fuel cfg duration raises stop (start_run loops) = Some run \<and> phase run = Sealed"
  have "kept_going cfg (rounds (start_run loops))" by (simp add: kept_going_def start_run_def)
  with a have r: "min_rounds cfg \<le> length (rounds run)" "0 < length (rounds run)"
      "kept_going cfg (butlast (rounds run))"
    using run_rounds_sealed [of fuel cfg duration raises stop "start_run loops" run]
    by (simp_all add: start_run_def)
  show "min_rounds cfg \<le> length (rounds run)" by (rule r(1))
  show "\<forall>m. 0 < m \<and> m < length (rounds run)
                \<longrightarrow> \<not> (min_rounds cfg \<le> m \<and> max_time cfg \<le> sum_list (take m (rounds run)))"
  proof (intro allI impI)
    fix m assume m: "0 < m \<and> m < length (rounds run)"
    then have le: "m \<le> length (butlast (rounds run))" by auto
    from m have "take m (butlast (rounds run)) = take m (rounds run)"
      by (simp add: take_butlast)
    with r(3) m le have "m < min_rounds cfg \<or> sum_list (take m (rounds run)) < max_time cfg"
      unfolding kept_going_def by (metis)
    then show "\<not> (min_rounds cfg \<le> m \<and> max_time cfg \<le> sum_list (take m (rounds run)))"
      by auto
  qed
next
  assume b: "0 < n \<and> min_rounds cfg \<le> n \<and> max_time cfg \<le> cumulative_elapsed duration n
        \<and> (\<forall>m. 0 < m \<and> m < n \<longrightarrow>
              m < min_rounds cfg \<or> (cumulative_elapsed duration m < max_time cfg \<and> \<not> stop m))
        \<and> (\<forall>i < n. \<not> raises i) \<and> n \<le> fuel"
  have "run_rounds fuel cfg duration raises stop (start_run loops)
      = Some ((start_run loops)\<lparr>phase := Sealed, rounds := map duration [0..<n]\<rparr>)"
    using b by (intro run_rounds_exact [where k = 0 and n = n]) (simp_all add: start_run_def)
  then show "run_rounds fuel cfg duration raises stop (start_run loops)
            = Some \<lparr> phase = Sealed, rounds = map duration [0..<n], loops_per_round = loops \<rparr>"
    by (simp add: start_run_def)
qed


text \<open>
  Five rounds at the least and a budget of two seconds, rounds of one second: the budget
  is used up after two rounds and the run is sealed after five.
\<close>

theorem round_runner_min_rounds_precedence_witness:
  "run_rounds 8 example_config (\<lambda>i. 1) (\<lambda>i. False) (\<lambda>n. False) (start_run 1)
     = Some \<lparr> phase = Sealed, rounds = [1, 1, 1, 1, 1], loops_per_round = 1 \<rparr>
   \<and> max_time example_config \<le> cumulative_elapsed (\<lambda>i. 1) 2
   \<and> min_rounds example_config \<le> length [1, 1, 1, 1, 1 :: real]"
proof -
  have u5: "[0..<5] = [0, 1, 2, 3, 4]" by code_simp
  have u2: "[0..<2] = [0, 1]" by code_simp
  have c5: "cumulative_elapsed (\<lambda>i. 1) 5 = 5" by (simp add: cumulative_elapsed_def u5)
  have c2: "cumulative_elapsed (\<lambda>i. 1) 2 = 2" by (simp add: cumulative_elapsed_def u2)
  have m5: "map (\<lambda>i. 1 :: real) [0..<5] = [1, 1, 1, 1, 1]" by (simp add: u5)
  have "run_rounds 8 example_config (\<lambda>i. 1) (\<lambda>i. False) (\<lambda>n. False) (start_run 1)
     = Some \<lparr> phase = Sealed, rounds = map (\<lambda>i. 1) [0..<5], loops_per_round = 1 \<rparr>"
    using round_runner_min_rounds_precedence
            [of 8 example_config "\<lambda>i. 1" "\<lambda>i. False" "\<lambda>n. False" 1 _ 5]
    by (simp add: c5 example_config_def)
  then show ?thesis by (simp add: m5 c2 example_config_def)
qed

lemma mean_bounds:
  assumes "xs \<noteq> []" and "\<forall>x \<in> set xs. lo \<le> x \<and> x \<le> hi"
  shows "lo \<le> mean xs \<and> mean xs \<le> hi"
proof -
  have n: "0 < real (length xs)" using assms(1) by simp
  have "sum_list (map (\<lambda>x. lo) xs) \<le> sum_list (map (\<lambda>x. x) xs)"
    by (rule sum_list_mono) (simp add: assms(2))
  then have lo: "real (length xs) * lo \<le> sum_list xs" by (simp add: sum_list_triv)
  have "sum_list (map (\<lambda>x. x) xs) \<le> sum_list (map (\<lambda>x. hi) xs)"
    by (rule sum_list_mono) (simp add: assms(2))
  then have hi: "sum_list xs \<le> real (length xs) * hi" by (simp add: sum_list_triv)
  from lo hi n show ?thesis
    by (simp add: mean_def pos_le_divide_eq pos_divide_le_eq mult.commute)
qed

lemma median_bounds:
  assumes "xs \<noteq> []" and "\<forall>x \<in> set xs. lo \<le> x \<and> x \<le> hi"
  shows "lo \<le> median xs \<and> median xs \<le> hi"
proof -
  define s where "s = sort xs"
  define n where "n = length s"
  have n: "0 < n" using assms(1) by (simp add: n_def s_def)
  have nth: "lo \<le> s ! i \<and> s ! i \<le> hi" if "i < n" for i
  proof -
    from that have "s ! i \<in> set s" by (simp add: n_def)
    then have "s ! i \<in> set xs" by (simp add: s_def)
    with assms(2) show ?thesis by simp
  qed
  show ?thesis
  proof (cases "odd n")
    case True
    have "n div 2 < n" using n by simp
    from nth [OF this] True show ?thesis
      by (simp add: median_def Let_def s_def [symmetric] n_def [symmetric])
  next
    case False
    with n have "n div 2 - 1 < n" "n div 2 < n" by simp_all
    from nth [OF this(1)] nth [OF this(2)] False show ?thesis
      by (simp add: median_def Let_def s_def [symmetric] n_def [symmetric])
  qed
qed

lemma stddev_nonneg: "0 \<le> stddev xs"
proof -
  have "0 \<le> sum_list (map (\<lambda>x. (x - mean xs)\<^sup>2) xs)"
    by (rule sum_list_nonneg) auto
  then show ?thesis by (simp add: stddev_def)
qed

text \<open>
  C2: a sealed run with at least one round has a statistics record, in which
  \<open>min \<le> median \<le> max\<close>, \<open>min \<le> mean \<le> max\<close> and \<open>stddev \<ge> 0\<close>, and \<open>stddev = 0\<close>
  when the round count is 1.
\<close>

theorem stats_record_ordered:
  assumes "phase run = Sealed" and "rounds run \<noteq> []"
  shows "\<exists>st. compute_stats run = Some st
           \<and> st_min st \<le> st_median st \<and> st_median st \<le> st_max st
           \<and> st_min st \<le> st_mean st \<and> st_mean st \<le> st_max st
           \<and> 0 \<le> st_stddev st
           \<and> (st_rounds st = 1 \<longrightarrow> st_stddev st = 0)
           \<and> st_rounds st = length (rounds run)"
proof -
  define xs where "xs = map (\<lambda>d. d / real (loops_per_round run)) (rounds run)"
  have ne: "xs \<noteq> []" using assms(2) by (simp add: xs_def)
  have b: "\<forall>x \<in> set xs. Min (set xs) \<le> x \<and> x \<le> Max (set xs)" by simp
  have cs: "compute_stats run =
      Some \<lparr> st_min = Min (set xs), st_max = Max (set xs), st_mean = mean xs,
             st_stddev = stddev xs, st_median = median xs, st_rounds = length xs \<rparr>"
    using assms by (simp add: compute_stats_def xs_def Let_def)
  have one: "length xs = 1 \<longrightarrow> stddev xs = 0" by (simp add: stddev_def)
  have len: "length xs = length (rounds run)" by (simp add: xs_def)
  from mean_bounds [OF ne b] median_bounds [OF ne b] stddev_nonneg [of xs] one len
  show ?thesis unfolding cs by simp
qed

theorem stats_record_ordered_witness:
  "phase example_run = Sealed \<and> rounds example_run \<noteq> []
   \<and> (\<exists>st. compute_stats example_run = Some st
         \<and> st_min st = 1 \<and> st_median st = 3 \<and> st_mean st = 3 \<and> st_max st = 5
         \<and> st_rounds st = 5 \<and> 0 \<le> st_stddev st)"
proof -
  have h1: "phase example_run = Sealed" and h2: "rounds example_run \<noteq> []"
    by (simp_all add: example_run_def)
  from stats_record_ordered [OF h1 h2] obtain st where
    st: "compute_stats example_run = Some st" and sd: "0 \<le> st_stddev st" by blast
  have "compute_stats example_run =
      Some \<lparr> st_min = 1, st_max = 5, st_mean = 3, st_stddev = stddev [1, 2, 3, 4, 5],
             st_median = 3, st_rounds = 5 \<rparr>"
    by (simp add: compute_stats_def example_run_def Let_def mean_def median_def)
  with st sd h1 h2 show ?thesis by auto
qed

lemma parse_mean_10: "parse_compare_fail ''mean:10%'' = Some (''mean'', Percentage 10)"
  by (simp add: parse_compare_fail_def parse_threshold_def parse_decimal_def metric_names_def
                digit_of_def)

lemma parse_mean_abs: "parse_compare_fail ''mean:0.001'' = Some (''mean'', Absolute (1 / 1000))"
  by (simp add: parse_compare_fail_def parse_threshold_def parse_decimal_def metric_names_def
                digit_of_def)

text \<open>
  C3: for an expression that parses to a metric and a percentage, the verdict on a
  baseline and a current value of the metric is fail exactly when
  \<open>current > baseline \<times> (1 + percentage/100)\<close>; for one that parses to a bare number it
  is fail exactly when \<open>current > baseline + threshold\<close>; it is pass otherwise. With
  baseline mean 1.0 the expression \<^verbatim>\<open>mean:10%\<close> fails a current mean of 1.2 and passes a
  current mean of 1.05.
\<close>

theorem threshold_verdict:
  "(parse_compare_fail e = Some (m, Percentage p) \<and> map_of baseline m = Some b
      \<and> map_of current m = Some c
     \<longrightarrow> (compare_verdict e baseline current = Some Fail \<longleftrightarrow> c > b * (1 + p / 100))
        \<and> (compare_verdict e baseline current = Some Pass \<longleftrightarrow> \<not> c > b * (1 + p / 100)))
   \<and> (parse_compare_fail e = Some (m, Absolute t) \<and> map_of baseline m = Some b
      \<and> map_of current m = Some c
     \<longrightarrow> (compare_verdict e baseline current = Some Fail \<longleftrightarrow> c > b + t)
        \<and> (compare_verdict e baseline current = Some Pass \<longleftrightarrow> \<not> c > b + t))
   \<and> compare_verdict ''mean:10%'' [(''mean'', 1.0)] [(''mean'', 1.2)] = Some Fail
   \<and> compare_verdict ''mean:10%'' [(''mean'', 1.0)] [(''mean'', 1.05)] = Some Pass"
  by (simp add: compare_verdict_def parse_mean_10)

theorem threshold_verdict_witness:
  "parse_compare_fail ''mean:10%'' = Some (''mean'', Percentage 10)
   \<and> compare_verdict ''mean:10%'' [(''mean'', 2)] [(''mean'', 2.5)] = Some Fail
   \<and> parse_compare_fail ''mean:0.001'' = Some (''mean'', Absolute (1 / 1000))
   \<and> compare_verdict ''mean:0.001'' [(''mean'', 2)] [(''mean'', 2.0005)] = Some Pass"
  using threshold_verdict [of "''mean:10%''" "''mean''" 10 "[(''mean'', 2)]" 2 "[(''mean'', 2.5)]" "2.5"]
        threshold_verdict [of "''mean:0.001''" "''mean''" _ "[(''mean'', 2)]" 2 "[(''mean'', 2.0005)]" "2.0005" "1 / 1000"]
  by (simp add: parse_mean_10 parse_mean_abs)



























end
